theory Spec2Isabelle
  imports Main "HOL-Library.Sublist"
begin

section \<open>Calls, exceptions and the observable world\<close>

text \<open>
  A call either raises (\<open>Inl e\<close>) or returns (\<open>Inr v\<close>). What is raised is an instance
  of the class \<^verbatim>\<open>Exception\<close>, carrying the text that \<^verbatim>\<open>str(e)\<close> renders, or an instance
  of \<^verbatim>\<open>BaseException\<close> that is not an instance of \<^verbatim>\<open>Exception\<close> (\<^verbatim>\<open>KeyboardInterrupt\<close>,
  \<^verbatim>\<open>SystemExit\<close>), carrying the name of its class.
\<close>

datatype exn = Exception (message: string) | BaseException (class_name: string)

text \<open>
  Both handlers of \<^verbatim>\<open>agents.py\<close> read \<^verbatim>\<open>except Exception as e: return f"<prefix>{str(e)}"\<close>.
  The clause matches the instances of \<^verbatim>\<open>Exception\<close> only: for one of them the function
  returns the prefix followed by \<^verbatim>\<open>str(e)\<close>; anything else that was raised leaves the
  function.
\<close>

definition except_Exception :: "string \<Rightarrow> exn \<Rightarrow> exn + string" where
  "except_Exception lead e =
     (case e of
        Exception m \<Rightarrow> Inr (lead @ m)
      | BaseException c \<Rightarrow> Inl (BaseException c))"

text \<open>
  What a call leaves behind: the texts that \<^verbatim>\<open>print\<close> wrote to the standard output, the
  calls made to the constructor of the search client and to the client's \<^verbatim>\<open>search\<close>, in
  the order they happened; and the identity the next constructed object gets (Python
  gives every live object an identity of its own).
\<close>

datatype event =
    Printed string
  | ClientConstructed "string option"
  | SearchCalled string string string

record world =
  next_ref :: nat
  trace :: "event list"

definition emit :: "event \<Rightarrow> world \<Rightarrow> world" where
  "emit ev w = w\<lparr>trace := trace w @ [ev]\<rparr>"


text \<open>Sequencing of calls that may raise: the first exception ends the sequence.\<close>

definition then_E ::
  "(world \<Rightarrow> (exn + 'a) \<times> world) \<Rightarrow> ('a \<Rightarrow> world \<Rightarrow> (exn + 'b) \<times> world) \<Rightarrow>
   world \<Rightarrow> (exn + 'b) \<times> world" where
  "then_E m f w = (case m w of (Inl e, w') \<Rightarrow> (Inl e, w') | (Inr v, w') \<Rightarrow> f v w')"

definition return_E :: "'a \<Rightarrow> world \<Rightarrow> (exn + 'a) \<times> world" where
  "return_E v w = (Inr v, w)"

text \<open>
  A constructor call: the library validates the object and may raise; an object that is
  returned has a fresh identity.
\<close>

definition construct ::
  "('a \<Rightarrow> exn option) \<Rightarrow> (nat \<Rightarrow> 'a) \<Rightarrow> world \<Rightarrow> (exn + 'a) \<times> world" where
  "construct validate mk w =
     (let obj = mk (next_ref w) in
      case validate obj of
        Some e \<Rightarrow> (Inl e, w)
      | None \<Rightarrow> (Inr obj, w\<lparr>next_ref := Suc (next_ref w)\<rparr>))"

section \<open>The objects of the pipeline\<close>

record LLM =
  llm_ref :: nat
  model :: string
  base_url :: string
  api_key :: string

text \<open>\<^verbatim>\<open>LinkUpSearchInput\<close>: one field per entry, with its default when it has one.\<close>

definition LinkUpSearchInput :: "(string \<times> string option) list" where
  "LinkUpSearchInput =
     [(''query'', None), (''depth'', Some ''standard''), (''output_type'', Some ''structured'')]"

record LinkUpSearchTool =
  tool_ref :: nat
  name :: string
  description :: string
  args_schema :: "(string \<times> string option) list"

record Agent =
  agent_ref :: nat
  role :: string
  goal :: string
  backstory :: string
  agent_verbose :: bool
  allow_delegation :: bool
  agent_tools :: "LinkUpSearchTool list option"
  llm :: LLM

record tool_choice =
  choice_name :: string
  arguments :: "(string \<times> string) list"

datatype Task = Task
  (task_ref: nat)
  (task_description: string)
  (agent: Agent)
  (expected_output: string)
  (task_tools: "LinkUpSearchTool list option")
  (task_tool_choice: "tool_choice option")
  (task_context: "Task list option")

datatype Process = sequential | hierarchical

record Crew =
  crew_ref :: nat
  agents :: "Agent list"
  tasks :: "Task list"
  crew_verbose :: bool
  process :: Process

section \<open>The libraries the source calls\<close>

text \<open>
  The search provider's client, the agent framework and the process environment are not
  part of the repository. They enter as parameters: what \<^verbatim>\<open>os.getenv\<close> reads, whether
  writing a text to the standard output raises (a stream that cannot encode the text, a
  closed stream), whether a constructor raises, what the provider answers (a response of type \<open>'r\<close> and its
  \<^verbatim>\<open>str\<close>), what \<^verbatim>\<open>crew.kickoff()\<close> does given the crew and the \<^verbatim>\<open>_run\<close> method of
  its tool, and what reading \<^verbatim>\<open>.raw\<close> of its result (of type \<open>'o\<close>) gives.
\<close>

type_synonym tool_run =
  "string \<Rightarrow> string option \<Rightarrow> string option \<Rightarrow> world \<Rightarrow> (exn + string) \<times> world"

record ('r, 'o) env =
  getenv :: "string \<Rightarrow> string option"
  stdout_write :: "string \<Rightarrow> exn option"
  LinkupClient_init :: "string option \<Rightarrow> exn option"
  LinkupClient_search :: "string option \<Rightarrow> string \<Rightarrow> string \<Rightarrow> string \<Rightarrow> exn + 'r"
  str_result :: "'r \<Rightarrow> string"
  BaseTool_init :: "LinkUpSearchTool \<Rightarrow> exn option"
  LLM_init :: "LLM \<Rightarrow> exn option"
  Agent_init :: "Agent \<Rightarrow> exn option"
  Task_init :: "Task \<Rightarrow> exn option"
  Crew_init :: "Crew \<Rightarrow> exn option"
  kickoff :: "Crew \<Rightarrow> tool_run \<Rightarrow> world \<Rightarrow> (exn + 'o) \<times> world"
  raw :: "'o \<Rightarrow> exn + string"

section \<open>The search adapter\<close>

text \<open>The magnifying-glass sign of the diagnostic line, as its four UTF-8 bytes.\<close>

definition magnifier :: string where
  "magnifier = [CHR 0xF0, CHR 0x9F, CHR 0x94, CHR 0x8D]"

definition diagnostic_line :: "string \<Rightarrow> string" where
  "diagnostic_line query = ''['' @ magnifier @ '' LinkUp Search] Searching for: '' @ query"

text \<open>
  \<^verbatim>\<open>print(text)\<close>: when writing to the standard output raises, nothing is written.
\<close>

definition print :: "('r, 'o) env \<Rightarrow> string \<Rightarrow> world \<Rightarrow> (exn + unit) \<times> world" where
  "print env s w =
     (case stdout_write env s of
        Some e \<Rightarrow> (Inl e, w)
      | None \<Rightarrow> (Inr (), emit (Printed s) w))"

text \<open>
  The body of the \<^verbatim>\<open>try\<close> block of \<^verbatim>\<open>LinkUpSearchTool._run\<close>: print, construct the client
  with the credential read from the process environment, search, convert with \<^verbatim>\<open>str\<close>.
  The first statement that raises ends the body.
\<close>

definition LinkUpSearchTool_run_try ::
  "('r, 'o) env \<Rightarrow> string \<Rightarrow> string \<Rightarrow> string \<Rightarrow> world \<Rightarrow> (exn + string) \<times> world" where
  "LinkUpSearchTool_run_try env query depth output_type w =
     (case print env (diagnostic_line query) w of
        (Inl e, w1) \<Rightarrow> (Inl e, w1)
      | (Inr u, w1) \<Rightarrow>
          (let key = getenv env ''LINKUP_API_KEY'';
               w2 = emit (ClientConstructed key) w1
           in case LinkupClient_init env key of
                Some e \<Rightarrow> (Inl e, w2)
              | None \<Rightarrow>
                  (let w3 = emit (SearchCalled query depth output_type) w2
                   in case LinkupClient_search env key query depth output_type of
                        Inl e \<Rightarrow> (Inl e, w3)
                      | Inr result \<Rightarrow> (Inr (str_result env result), w3))))"

text \<open>
  \<^verbatim>\<open>_run(self, query, depth="standard", output_type="structured")\<close>: an argument that the
  caller leaves out is \<open>None\<close> here and takes its default; the handler turns an
  \<^verbatim>\<open>Exception\<close> of the body into the returned string.
\<close>

definition LinkUpSearchTool_run :: "('r, 'o) env \<Rightarrow> tool_run" where
  "LinkUpSearchTool_run env query depth output_type w =
     (case LinkUpSearchTool_run_try env query
             (case depth of None \<Rightarrow> ''standard'' | Some d \<Rightarrow> d)
             (case output_type of None \<Rightarrow> ''structured'' | Some t \<Rightarrow> t) w of
        (Inl e, w') \<Rightarrow> (except_Exception ''Error during LinkUp search: '' e, w')
      | (Inr s, w') \<Rightarrow> (Inr s, w'))"

section \<open>The pipeline builder\<close>

text \<open>
  Each constructor call of \<^verbatim>\<open>agents.py\<close> with its keyword arguments: the object it
  returns, given the identity \<open>r\<close> the object gets.
\<close>

definition new_client :: "nat \<Rightarrow> LLM" where
  "new_client r =
     \<lparr>llm_ref = r, model = ''ollama/tinyllama:1.1b-chat'',
      base_url = ''http://localhost:11434'', api_key = ''ollama''\<rparr>"

definition new_linkup_tool :: "nat \<Rightarrow> LinkUpSearchTool" where
  "new_linkup_tool r =
     \<lparr>tool_ref = r, name = ''LinkUp Search'',
      description =
        ''Search the web for information using LinkUp and return comprehensive results'',
      args_schema = LinkUpSearchInput\<rparr>"

definition new_web_searcher :: "LinkUpSearchTool \<Rightarrow> LLM \<Rightarrow> nat \<Rightarrow> Agent" where
  "new_web_searcher linkup_tool client r =
     \<lparr>agent_ref = r,
      role = ''Web Searcher'',
      goal = ''Find the most relevant information on the web, with source links.'',
      backstory = ''An expert at searching and gathering high-quality online information.'',
      agent_verbose = True,
      allow_delegation = True,
      agent_tools = Some [linkup_tool],
      llm = client\<rparr>"

definition new_research_analyst :: "LLM \<Rightarrow> nat \<Rightarrow> Agent" where
  "new_research_analyst client r =
     \<lparr>agent_ref = r,
      role = ''Research Analyst'',
      goal = ''Analyze and synthesize information from search results.'',
      backstory = ''A critical thinker who transforms raw data into structured insights.'',
      agent_verbose = True,
      allow_delegation = True,
      agent_tools = None,
      llm = client\<rparr>"

definition new_technical_writer :: "LLM \<Rightarrow> nat \<Rightarrow> Agent" where
  "new_technical_writer client r =
     \<lparr>agent_ref = r,
      role = ''Technical Writer'',
      goal = ''Answer the user'' @ [CHR 0x27] @ ''s original query in a clear, fact-based, ''
        @ ''and simple manner using the research analysis. ''
        @ ''Always include relevant examples and cite sources.'',
      backstory = ''An expert communicator who explains complex topics in simple words ''
        @ ''for a general audience.'',
      agent_verbose = True,
      allow_delegation = False,
      agent_tools = None,
      llm = client\<rparr>"

definition new_search_task :: "string \<Rightarrow> Agent \<Rightarrow> LinkUpSearchTool \<Rightarrow> nat \<Rightarrow> Task" where
  "new_search_task query web_searcher linkup_tool r =
     Task r
       (''Search for information about: '' @ [CHR 0x27] @ query @ [CHR 0x27]
          @ '' using LinkUp.'')
       web_searcher
       ''Raw search results with sources (urls).''
       (Some [linkup_tool])
       (Some \<lparr>choice_name = ''LinkUp Search'',
              arguments = [(''query'', query), (''depth'', ''standard''),
                           (''output_type'', ''structured'')]\<rparr>)
       None"

definition new_analysis_task :: "Agent \<Rightarrow> Task \<Rightarrow> nat \<Rightarrow> Task" where
  "new_analysis_task research_analyst search_task r =
     Task r
       ''Analyze the search results, extract important insights, verify facts.''
       research_analyst
       ''Verified insights with relevant sources.''
       None
       None
       (Some [search_task])"

definition new_writing_task :: "Agent \<Rightarrow> Task \<Rightarrow> nat \<Rightarrow> Task" where
  "new_writing_task technical_writer analysis_task r =
     Task r
       ''Create a final markdown response based on analysis.''
       technical_writer
       ''Well-structured answer with citations and clear explanations.''
       None
       None
       (Some [analysis_task])"

definition new_crew :: "Agent list \<Rightarrow> Task list \<Rightarrow> nat \<Rightarrow> Crew" where
  "new_crew the_agents the_tasks r =
     \<lparr>crew_ref = r, agents = the_agents, tasks = the_tasks, crew_verbose = True,
      process = sequential\<rparr>"

definition get_llm_client :: "('r, 'o) env \<Rightarrow> world \<Rightarrow> (exn + LLM) \<times> world" where
  "get_llm_client env = construct (LLM_init env) new_client"

definition create_research_crew ::
  "('r, 'o) env \<Rightarrow> string \<Rightarrow> world \<Rightarrow> (exn + Crew) \<times> world" where
  "create_research_crew env query =
     then_E (construct (BaseTool_init env) new_linkup_tool) (\<lambda>linkup_tool.
     then_E (get_llm_client env) (\<lambda>client.
     then_E (construct (Agent_init env) (new_web_searcher linkup_tool client))
       (\<lambda>web_searcher.
     then_E (construct (Agent_init env) (new_research_analyst client))
       (\<lambda>research_analyst.
     then_E (construct (Agent_init env) (new_technical_writer client))
       (\<lambda>technical_writer.
     then_E (construct (Task_init env) (new_search_task query web_searcher linkup_tool))
       (\<lambda>search_task.
     then_E (construct (Task_init env) (new_analysis_task research_analyst search_task))
       (\<lambda>analysis_task.
     then_E (construct (Task_init env) (new_writing_task technical_writer analysis_task))
       (\<lambda>writing_task.
     then_E (construct (Crew_init env)
               (new_crew [web_searcher, research_analyst, technical_writer]
                         [search_task, analysis_task, writing_task]))
       (\<lambda>crew.
     return_E crew)))))))))"

section \<open>The pipeline runner and the tool server\<close>

definition run_research_try ::
  "('r, 'o) env \<Rightarrow> string \<Rightarrow> world \<Rightarrow> (exn + string) \<times> world" where
  "run_research_try env query =
     then_E (create_research_crew env query) (\<lambda>crew.
     then_E (kickoff env crew (LinkUpSearchTool_run env)) (\<lambda>result.
     (\<lambda>w. (raw env result, w))))"

definition run_research ::
  "('r, 'o) env \<Rightarrow> string \<Rightarrow> world \<Rightarrow> (exn + string) \<times> world" where
  "run_research env query w =
     (case run_research_try env query w of
        (Inl e, w') \<Rightarrow> (except_Exception ''Error during crew execution: '' e, w')
      | (Inr s, w') \<Rightarrow> (Inr s, w'))"

text \<open>
  \<^verbatim>\<open>server.py\<close>: a server object, on which the decorator \<^verbatim>\<open>@mcp.tool()\<close> registers
  the function under its own name with its parameters (name, annotation, required when
  it has no default) and its return annotation; the module runs the server on the
  \<^verbatim>\<open>stdio\<close> transport.
\<close>

record operation =
  op_name :: string
  op_params :: "(string \<times> string \<times> bool) list"
  op_returns :: string

record FastMCP =
  server_name :: string
  registered :: "operation list"

definition FastMCP_new :: "string \<Rightarrow> FastMCP" where
  "FastMCP_new n = \<lparr>server_name = n, registered = []\<rparr>"

definition tool :: "operation \<Rightarrow> FastMCP \<Rightarrow> FastMCP" where
  "tool opn srv = srv\<lparr>registered := registered srv @ [opn]\<rparr>"

definition crew_research ::
  "('r, 'o) env \<Rightarrow> string \<Rightarrow> world \<Rightarrow> (exn + string) \<times> world" where
  "crew_research env query = run_research env query"

definition mcp :: FastMCP where
  "mcp = tool \<lparr>op_name = ''crew_research'', op_params = [(''query'', ''str'', True)],
               op_returns = ''str''\<rparr>
           (FastMCP_new ''crew_research'')"

text \<open>\<^verbatim>\<open>mcp.run(transport="stdio")\<close>: the server that runs, and the transport it runs on.\<close>

record serving =
  served :: FastMCP
  transport :: string

definition FastMCP_run :: "FastMCP \<Rightarrow> string \<Rightarrow> serving" where
  "FastMCP_run srv t = \<lparr>served = srv, transport = t\<rparr>"

definition main :: serving where
  "main = FastMCP_run mcp ''stdio''"

section \<open>Object identities reachable from a crew\<close>

definition agent_refs :: "Agent \<Rightarrow> nat list" where
  "agent_refs a =
     agent_ref a # llm_ref (llm a)
       # (case agent_tools a of None \<Rightarrow> [] | Some ts \<Rightarrow> map tool_ref ts)"

fun task_refs :: "Task \<Rightarrow> nat list" where
  "task_refs (Task r d a x ts c ups) =
     r # agent_refs a
       @ (case ts of None \<Rightarrow> [] | Some tls \<Rightarrow> map tool_ref tls)
       @ (case ups of None \<Rightarrow> [] | Some us \<Rightarrow> concat (map task_refs us))"

definition crew_refs :: "Crew \<Rightarrow> nat list" where
  "crew_refs c =
     crew_ref c # concat (map agent_refs (agents c)) @ concat (map task_refs (tasks c))"

section \<open>Sequential execution of a crew\<close>

text \<open>
  The agent framework that executes a crew (\<^verbatim>\<open>Crew.kickoff\<close>, its task executor and its
  tool dispatch) is an imported library and is not under \<^verbatim>\<open>src/\<close>. The definitions of
  this section model it from sections 4.2 and 4.3 of the specification. What the
  language model behind an agent writes is the parameter \<open>answer\<close>: from the task, the
  texts of its context and what the tool returned (if the task invoked it), an exception
  or a text.
\<close>

type_synonym answer = "Task \<Rightarrow> string list \<Rightarrow> string option \<Rightarrow> exn + string"

datatype CrewOutput = CrewOutput (output_raw: string)

text \<open>
  Modelled from the spec: the framework's tool dispatch is missing from the sources; the
  tool is invoked with the pre-filled arguments as the keyword call \<^verbatim>\<open>_run(**arguments)\<close>.
  Python raises a \<^verbatim>\<open>TypeError\<close> for a keyword that \<^verbatim>\<open>_run\<close> does not have and for a
  missing \<^verbatim>\<open>query\<close>; \<^verbatim>\<open>depth\<close> and \<^verbatim>\<open>output_type\<close> may be left out.
\<close>

definition call_with_arguments ::
  "tool_run \<Rightarrow> (string \<times> string) list \<Rightarrow> world \<Rightarrow> (exn + string) \<times> world" where
  "call_with_arguments run args w =
     (case filter (\<lambda>k. k \<notin> set (map fst LinkUpSearchInput)) (map fst args) of
        k # _ \<Rightarrow>
          (Inl (Exception (''_run() got an unexpected keyword argument '' @ [CHR 0x27] @ k
                  @ [CHR 0x27])), w)
      | [] \<Rightarrow>
          (case map_of args ''query'' of
             None \<Rightarrow>
               (Inl (Exception (''_run() missing 1 required positional argument: ''
                       @ [CHR 0x27] @ ''query'' @ [CHR 0x27])), w)
           | Some q \<Rightarrow> run q (map_of args ''depth'') (map_of args ''output_type'') w))"

text \<open>
  Modelled from the spec: the framework's task executor is missing from the sources. A
  task with pre-filled tool-invocation arguments invokes the tool with them and hands
  what the tool returned to its agent; a task without them invokes no tool (section 4.2).
\<close>

definition execute_task ::
  "answer \<Rightarrow> tool_run \<Rightarrow> Task \<Rightarrow> string list \<Rightarrow> world \<Rightarrow> (exn + string) \<times> world" where
  "execute_task answer run t ctx w =
     (case task_tool_choice t of
        None \<Rightarrow> (answer t ctx None, w)
      | Some tc \<Rightarrow>
          (case call_with_arguments run (arguments tc) w of
             (Inl e, w') \<Rightarrow> (Inl e, w')
           | (Inr observed, w') \<Rightarrow> (answer t ctx (Some observed), w')))"

text \<open>
  Modelled from the spec: the framework's context passing is missing from the sources.
  The input context of a task is the outputs of the upstream tasks it lists, and nothing
  when it lists none (section 4.2).
\<close>

definition context_of :: "Task \<Rightarrow> (nat \<times> string) list \<Rightarrow> string list" where
  "context_of t finished =
     (case task_context t of
        None \<Rightarrow> []
      | Some ups \<Rightarrow>
          concat (map (\<lambda>u. case map_of finished (task_ref u) of
                             None \<Rightarrow> [] | Some out \<Rightarrow> [out]) ups))"

text \<open>
  Modelled from the spec: the framework's sequential process is missing from the sources.
  The tasks run in their listed order, each to completion before the next starts; an
  exception of a task ends the run (section 4.3).
\<close>

fun run_tasks ::
  "answer \<Rightarrow> tool_run \<Rightarrow> Task list \<Rightarrow> (nat \<times> string) list \<Rightarrow> world \<Rightarrow>
   (exn + (nat \<times> string) list) \<times> world" where
  "run_tasks answer run [] finished w = (Inr finished, w)"
| "run_tasks answer run (t # ts) finished w =
     (case execute_task answer run t (context_of t finished) w of
        (Inl e, w') \<Rightarrow> (Inl e, w')
      | (Inr out, w') \<Rightarrow> run_tasks answer run ts (finished @ [(task_ref t, out)]) w')"

text \<open>
  Modelled from the spec: \<^verbatim>\<open>Crew.kickoff\<close> is missing from the sources. It executes the
  pipeline to completion; the raw text of the final task's output is its result
  (section 4.3). A crew without tasks has no final output, and the call raises.
\<close>

definition kickoff_sequential ::
  "answer \<Rightarrow> Crew \<Rightarrow> tool_run \<Rightarrow> world \<Rightarrow> (exn + CrewOutput) \<times> world" where
  "kickoff_sequential answer crew run w =
     (case run_tasks answer run (tasks crew) [] w of
        (Inl e, w') \<Rightarrow> (Inl e, w')
      | (Inr finished, w') \<Rightarrow>
          (case rev finished of
             [] \<Rightarrow> (Inl (Exception ''No task outputs available to create crew output.''), w')
           | (r, out) # _ \<Rightarrow> (Inr (CrewOutput out), w')))"

section \<open>Example environments\<close>

text \<open>
  Concrete libraries on which the theorems below are instantiated: a standard output
  that takes every text, a provider that answers every search, every constructor
  accepting, and agents that hand on what they were given.
\<close>

definition relay :: answer where
  "relay t ctx observed = Inr (case observed of Some s \<Rightarrow> s | None \<Rightarrow> concat ctx)"

definition working_env :: "(string, CrewOutput) env" where
  "working_env =
     \<lparr>getenv = (\<lambda>k. if k = ''LINKUP_API_KEY'' then Some ''secret'' else None),
      stdout_write = (\<lambda>s. None),
      LinkupClient_init = (\<lambda>key. None),
      LinkupClient_search = (\<lambda>key q d t. Inr (''sources for '' @ q)),
      str_result = (\<lambda>r. r),
      BaseTool_init = (\<lambda>x. None),
      LLM_init = (\<lambda>x. None),
      Agent_init = (\<lambda>x. None),
      Task_init = (\<lambda>x. None),
      Crew_init = (\<lambda>x. None),
      kickoff = kickoff_sequential relay,
      raw = (\<lambda>out. Inr (output_raw out))\<rparr>"

text \<open>
  The same, with a credential that the provider refuses at every search, and agents of
  which the first hands on what the tool returned while the other two write a text of
  their own.
\<close>

definition rewriting :: answer where
  "rewriting t ctx observed =
     (case observed of
        Some s \<Rightarrow> Inr s
      | None \<Rightarrow>
          (if role (agent t) = ''Technical Writer''
           then Inr ''No sources could be retrieved for this question.''
           else Inr ''No verified insights.''))"

definition refused_env :: "(string, CrewOutput) env" where
  "refused_env =
     working_env\<lparr>LinkupClient_search := (\<lambda>key q d t. Inl (Exception ''401 Unauthorized'')),
                 kickoff := kickoff_sequential rewriting\<rparr>"

text \<open>The same as the working one, with a model endpoint that cannot be reached.\<close>

definition unreachable_env :: "(string, CrewOutput) env" where
  "unreachable_env =
     working_env\<lparr>kickoff := kickoff_sequential (\<lambda>t ctx observed.
                    Inl (Exception ''Connection refused''))\<rparr>"

text \<open>
  The same as the working one, with a keyboard interrupt that arrives while an agent waits
  for its language model, and with one that arrives during the search.
\<close>

definition interrupted_env :: "(string, CrewOutput) env" where
  "interrupted_env =
     working_env\<lparr>kickoff := kickoff_sequential (\<lambda>t ctx observed.
                    Inl (BaseException ''KeyboardInterrupt''))\<rparr>"

definition interrupted_search_env :: "(string, CrewOutput) env" where
  "interrupted_search_env =
     working_env\<lparr>LinkupClient_search :=
                   (\<lambda>key q d t. Inl (BaseException ''KeyboardInterrupt''))\<rparr>"


definition world0 :: world where
  "world0 = \<lparr>next_ref = 0, trace = []\<rparr>"

section \<open>Sequencing, construction and the crew that is built\<close>

lemma construct_Inr:
  "construct v mk w = (Inr obj, w') \<longleftrightarrow>
     v (mk (next_ref w)) = None \<and> obj = mk (next_ref w) \<and> w' = w\<lparr>next_ref := Suc (next_ref w)\<rparr>"
  by (auto simp: construct_def Let_def split: option.splits)

lemma then_E_Inr:
  "then_E m f w = (Inr v, w') \<longleftrightarrow> (\<exists>u w1. m w = (Inr u, w1) \<and> f u w1 = (Inr v, w'))"
  by (auto simp: then_E_def split: prod.splits sum.splits)

lemma create_research_crew_Inr:
  assumes "create_research_crew env query w = (Inr crew, w1)"
  shows "let n = next_ref w;
             linkup_tool = new_linkup_tool n;
             client = new_client (n + 1);
             web_searcher = new_web_searcher linkup_tool client (n + 2);
             research_analyst = new_research_analyst client (n + 3);
             technical_writer = new_technical_writer client (n + 4);
             search_task = new_search_task query web_searcher linkup_tool (n + 5);
             analysis_task = new_analysis_task research_analyst search_task (n + 6);
             writing_task = new_writing_task technical_writer analysis_task (n + 7)
         in crew = new_crew [web_searcher, research_analyst, technical_writer]
                     [search_task, analysis_task, writing_task] (n + 8)
            \<and> w1 = w\<lparr>next_ref := n + 9\<rparr>"
  using assms
  unfolding create_research_crew_def get_llm_client_def Let_def
  by (auto simp: then_E_Inr construct_Inr return_E_def eval_nat_numeral)

lemma built_tasks:
  assumes "create_research_crew env query w = (Inr crew, w1)"
  obtains t1 t2 t3 where "tasks crew = [t1, t2, t3]"
    and "task_context t1 = None" and "task_context t2 = Some [t1]"
    and "task_context t3 = Some [t2]"
    and "task_ref t1 = next_ref w + 5" and "task_ref t2 = next_ref w + 6"
    and "task_ref t3 = next_ref w + 7"
    and "task_tool_choice t1 = Some \<lparr>choice_name = ''LinkUp Search'',
              arguments = [(''query'', query), (''depth'', ''standard''),
                           (''output_type'', ''structured'')]\<rparr>"
    and "task_tool_choice t2 = None" and "task_tool_choice t3 = None"
    and "map (role \<circ> agent) [t1, t2, t3] =
           [''Web Searcher'', ''Research Analyst'', ''Technical Writer'']"
proof -
  define tl where "tl = new_linkup_tool (next_ref w)"
  define c where "c = new_client (next_ref w + 1)"
  define a1 where "a1 = new_web_searcher tl c (next_ref w + 2)"
  define a2 where "a2 = new_research_analyst c (next_ref w + 3)"
  define a3 where "a3 = new_technical_writer c (next_ref w + 4)"
  define t1 where "t1 = new_search_task query a1 tl (next_ref w + 5)"
  define t2 where "t2 = new_analysis_task a2 t1 (next_ref w + 6)"
  define t3 where "t3 = new_writing_task a3 t2 (next_ref w + 7)"
  have "tasks crew = [t1, t2, t3]"
    using create_research_crew_Inr [OF assms]
    by (simp add: Let_def new_crew_def tl_def c_def a1_def a2_def a3_def t1_def t2_def t3_def)
  moreover have "task_context t1 = None" "task_context t2 = Some [t1]"
    "task_context t3 = Some [t2]" "task_ref t1 = next_ref w + 5" "task_ref t2 = next_ref w + 6"
    "task_ref t3 = next_ref w + 7"
    "task_tool_choice t1 = Some \<lparr>choice_name = ''LinkUp Search'',
              arguments = [(''query'', query), (''depth'', ''standard''),
                           (''output_type'', ''structured'')]\<rparr>"
    "task_tool_choice t2 = None" "task_tool_choice t3 = None"
    by (simp_all add: t1_def t2_def t3_def new_search_task_def new_analysis_task_def
        new_writing_task_def)
  moreover have "map (role \<circ> agent) [t1, t2, t3] =
           [''Web Searcher'', ''Research Analyst'', ''Technical Writer'']"
    by (simp add: t1_def t2_def t3_def new_search_task_def new_analysis_task_def
        new_writing_task_def a1_def a2_def a3_def new_web_searcher_def
        new_research_analyst_def new_technical_writer_def)
  ultimately show thesis by (rule that)
qed

lemma built_refs:
  assumes "create_research_crew env query w = (Inr crew, w1)"
  shows "set (crew_refs crew) = {next_ref w ..< next_ref w + 9}" "next_ref w1 = next_ref w + 9"
  using create_research_crew_Inr [OF assms]
  by (auto simp add: Let_def new_crew_def new_search_task_def new_analysis_task_def
      new_writing_task_def new_web_searcher_def new_research_analyst_def new_technical_writer_def
      new_client_def new_linkup_tool_def crew_refs_def agent_refs_def)

lemma accepting_builds:
  assumes "BaseTool_init env = (\<lambda>x. None)" and "LLM_init env = (\<lambda>x. None)"
    and "Agent_init env = (\<lambda>x. None)" and "Task_init env = (\<lambda>x. None)"
    and "Crew_init env = (\<lambda>x. None)"
  shows "\<exists>crew w1. create_research_crew env query w = (Inr crew, w1)"
  by (simp add: create_research_crew_def get_llm_client_def then_E_def construct_def
      return_E_def Let_def assms)

lemma working_env_builds:
  "\<exists>crew w1. create_research_crew working_env query w = (Inr crew, w1)"
  by (rule accepting_builds) (simp_all add: working_env_def)

lemma refused_env_builds:
  "\<exists>crew w1. create_research_crew refused_env query w = (Inr crew, w1)"
  by (rule accepting_builds) (simp_all add: refused_env_def working_env_def)

section \<open>The adapter and the sequential execution\<close>

lemma except_Exception_not_Exception: "except_Exception lead e \<noteq> Inl (Exception m)"
  by (simp add: except_Exception_def split: exn.splits)

lemma run_trace:
  "trace (snd (LinkUpSearchTool_run env query depth output_type w)) =
     trace w @
     (case stdout_write env (diagnostic_line query) of
        Some e \<Rightarrow> []
      | None \<Rightarrow>
          Printed (diagnostic_line query)
            # ClientConstructed (getenv env ''LINKUP_API_KEY'')
            # (case LinkupClient_init env (getenv env ''LINKUP_API_KEY'') of
                 Some e \<Rightarrow> []
               | None \<Rightarrow> [SearchCalled query
                            (case depth of None \<Rightarrow> ''standard'' | Some d \<Rightarrow> d)
                            (case output_type of None \<Rightarrow> ''structured'' | Some t \<Rightarrow> t)]))"
  by (simp add: LinkUpSearchTool_run_def LinkUpSearchTool_run_try_def Let_def print_def emit_def
      split: prod.splits sum.splits option.splits)

lemma run_research_not_Exception: "fst (run_research env query w) \<noteq> Inl (Exception m)"
  by (simp add: run_research_def except_Exception_not_Exception split: prod.splits sum.splits)

lemma execute_search_task:
  assumes "task_tool_choice t = Some \<lparr>choice_name = n,
             arguments = [(''query'', q), (''depth'', d), (''output_type'', ot)]\<rparr>"
  shows "execute_task answer run t ctx w =
           then_E (run q (Some d) (Some ot))
             (\<lambda>observed w'. (answer t ctx (Some observed), w')) w"
  using assms
  by (simp add: execute_task_def call_with_arguments_def LinkUpSearchInput_def then_E_def
      split: prod.splits sum.splits)

lemma execute_plain_task:
  "task_tool_choice t = None \<Longrightarrow> execute_task answer run t ctx w = (answer t ctx None, w)"
  by (simp add: execute_task_def)

lemma kickoff_three:
  assumes "task_context t1 = None" "task_context t2 = Some [t1]" "task_context t3 = Some [t2]"
    and "task_ref t1 \<noteq> task_ref t2" and "tasks crew = [t1, t2, t3]"
  shows "kickoff_sequential answer crew run w =
     then_E (execute_task answer run t1 []) (\<lambda>o1.
     then_E (execute_task answer run t2 [o1]) (\<lambda>o2.
     then_E (execute_task answer run t3 [o2]) (\<lambda>o3.
     return_E (CrewOutput o3)))) w"
  using assms
  by (simp add: kickoff_sequential_def then_E_def return_E_def context_of_def
      split: prod.splits sum.splits)

lemma pipeline_world:
  assumes "tasks crew = [t1, t2, t3]"
    and "task_context t1 = None" and "task_context t2 = Some [t1]"
    and "task_context t3 = Some [t2]" and "task_ref t1 \<noteq> task_ref t2"
    and "task_tool_choice t1 = Some \<lparr>choice_name = n,
             arguments = [(''query'', q), (''depth'', d), (''output_type'', ot)]\<rparr>"
    and "task_tool_choice t2 = None" and "task_tool_choice t3 = None"
  shows "snd (kickoff_sequential answer crew run w) = snd (run q (Some d) (Some ot) w)"
proof -
  obtain r w' where r: "run q (Some d) (Some ot) w = (r, w')"
    by (cases "run q (Some d) (Some ot) w")
  show ?thesis
    by (simp add: kickoff_three [OF assms(2,3,4,5,1)] execute_search_task [OF assms(6)]
        execute_plain_task assms(7,8) then_E_def return_E_def r split: sum.splits)
qed

lemma pipeline_result:
  assumes "tasks crew = [t1, t2, t3]"
    and "task_context t1 = None" and "task_context t2 = Some [t1]"
    and "task_context t3 = Some [t2]" and "task_ref t1 \<noteq> task_ref t2"
    and "task_tool_choice t1 = Some \<lparr>choice_name = n,
             arguments = [(''query'', q), (''depth'', d), (''output_type'', ot)]\<rparr>"
    and "task_tool_choice t2 = None" and "task_tool_choice t3 = None"
    and "fst (run q (Some d) (Some ot) w) = Inr observed"
  shows "fst (kickoff_sequential answer crew run w) =
     (case answer t1 [] (Some observed) of
        Inl x \<Rightarrow> Inl x
      | Inr o1 \<Rightarrow>
          (case answer t2 [o1] None of
             Inl x \<Rightarrow> Inl x
           | Inr o2 \<Rightarrow>
               (case answer t3 [o2] None of
                  Inl x \<Rightarrow> Inl x
                | Inr o3 \<Rightarrow> Inr (CrewOutput o3))))"
proof -
  obtain w' where r: "run q (Some d) (Some ot) w = (Inr observed, w')"
    using assms(9) by (cases "run q (Some d) (Some ot) w") simp
  show ?thesis
    by (simp add: kickoff_three [OF assms(2,3,4,5,1)] execute_search_task [OF assms(6)]
        execute_plain_task assms(7,8) then_E_def return_E_def r split: sum.splits)
qed

lemma refused_env_raises:
  "fst (LinkUpSearchTool_run_try refused_env q ''standard'' ''structured'' w) =
     Inl (Exception ''401 Unauthorized'')"
  by (simp add: LinkUpSearchTool_run_try_def Let_def print_def refused_env_def working_env_def)

text \<open>The two error strings on the example environments.\<close>

lemma refused_search_example:
  "fst (LinkUpSearchTool_run refused_env ''q'' None None world0) =
     Inr ''Error during LinkUp search: 401 Unauthorized''"
  by code_simp

lemma unreachable_endpoint_example:
  "fst (run_research unreachable_env ''q'' world0) =
     Inr ''Error during crew execution: Connection refused''"
  by code_simp

section \<open>The claims\<close>

text \<open>
  C1, as amended. For every query, \<open>run_research\<close> returns a string or lets through what
  is not an instance of \<^verbatim>\<open>Exception\<close>: an \<^verbatim>\<open>Exception\<close> raised while the crew is built,
  while it is executed or while the raw text of its result is read is caught and turned
  into the string \<^verbatim>\<open>Error during crew execution: \<close> followed by the exception's message, so
  that no \<^verbatim>\<open>Exception\<close> leaves the function; a \<^verbatim>\<open>KeyboardInterrupt\<close> or \<^verbatim>\<open>SystemExit\<close>
  raised there leaves it as it is.
\<close>

theorem run_research_catches_Exception:
  "fst (run_research env query w) =
     (case create_research_crew env query w of
        (Inl e, w1) \<Rightarrow> except_Exception ''Error during crew execution: '' e
      | (Inr crew, w1) \<Rightarrow>
          (case kickoff env crew (LinkUpSearchTool_run env) w1 of
             (Inl e, w2) \<Rightarrow> except_Exception ''Error during crew execution: '' e
           | (Inr result, w2) \<Rightarrow>
               (case raw env result of
                  Inl e \<Rightarrow> except_Exception ''Error during crew execution: '' e
                | Inr s \<Rightarrow> Inr s)))
   \<and> (\<forall>m. except_Exception ''Error during crew execution: '' (Exception m) =
            Inr (''Error during crew execution: '' @ m))
   \<and> (\<forall>c. except_Exception ''Error during crew execution: '' (BaseException c) =
            Inl (BaseException c))
   \<and> (\<forall>m. fst (run_research env query w) \<noteq> Inl (Exception m))"
  by (simp add: run_research_def run_research_try_def then_E_def except_Exception_def
      split: prod.splits sum.splits exn.splits)

text \<open>
  C1 as stated fails: a keyboard interrupt that arrives while the crew is executed is not
  caught, and leaves \<open>run_research\<close>.
\<close>

theorem run_research_interrupt_counterexample:
  "fst (run_research interrupted_env ''q'' world0) = Inl (BaseException ''KeyboardInterrupt'')"
  by code_simp

text \<open>
  C2, as amended. For every invocation of the search adapter's \<^verbatim>\<open>_run\<close>, with or without
  \<^verbatim>\<open>depth\<close> and \<^verbatim>\<open>output_type\<close>, an \<^verbatim>\<open>Exception\<close> raised during the call (by the
  diagnostic print, by the construction of the client, whatever the credential read from
  the environment, also a missing one, or by the search) is caught and the call returns
  \<^verbatim>\<open>Error during LinkUp search: \<close> followed by the exception's message; when nothing
  raises, it returns the textual representation of the provider's response. No
  \<^verbatim>\<open>Exception\<close> leaves \<^verbatim>\<open>_run\<close>; a \<^verbatim>\<open>KeyboardInterrupt\<close> or \<^verbatim>\<open>SystemExit\<close> raised during the
  call leaves it as it is.
\<close>

theorem run_catches_Exception:
  "fst (LinkUpSearchTool_run env query depth output_type w) =
     (case stdout_write env (diagnostic_line query) of
        Some e \<Rightarrow> except_Exception ''Error during LinkUp search: '' e
      | None \<Rightarrow>
          (case LinkupClient_init env (getenv env ''LINKUP_API_KEY'') of
             Some e \<Rightarrow> except_Exception ''Error during LinkUp search: '' e
           | None \<Rightarrow>
               (case LinkupClient_search env (getenv env ''LINKUP_API_KEY'') query
                       (case depth of None \<Rightarrow> ''standard'' | Some d \<Rightarrow> d)
                       (case output_type of None \<Rightarrow> ''structured'' | Some t \<Rightarrow> t) of
                  Inl e \<Rightarrow> except_Exception ''Error during LinkUp search: '' e
                | Inr result \<Rightarrow> Inr (str_result env result))))
   \<and> (\<forall>m. except_Exception ''Error during LinkUp search: '' (Exception m) =
            Inr (''Error during LinkUp search: '' @ m))
   \<and> (\<forall>c. except_Exception ''Error during LinkUp search: '' (BaseException c) =
            Inl (BaseException c))
   \<and> (\<forall>m. fst (LinkUpSearchTool_run env query depth output_type w) \<noteq> Inl (Exception m))"
  by (simp add: LinkUpSearchTool_run_def LinkUpSearchTool_run_try_def Let_def print_def
      except_Exception_def split: prod.splits sum.splits option.splits exn.splits)

text \<open>
  C2 as stated fails: a keyboard interrupt that arrives during the search is not caught,
  and leaves \<^verbatim>\<open>_run\<close>.
\<close>

theorem run_interrupt_counterexample:
  "fst (LinkUpSearchTool_run interrupted_search_env ''q'' None None world0) =
     Inl (BaseException ''KeyboardInterrupt'')"
  by code_simp

text \<open>
  C3, as amended. When the body of the search adapter raises an \<^verbatim>\<open>Exception\<close>, the adapter
  returns \<^verbatim>\<open>Error during LinkUp search: \<close> followed by the message to the search stage as
  an ordinary tool result, and the run does not end there: the search, analysis and
  writing stages produce their outputs in turn, and the runner returns the output of the
  writing stage, or what its handler makes of what a stage raises:
  \<^verbatim>\<open>Error during crew execution: \<close> followed by the message for an \<^verbatim>\<open>Exception\<close>.
\<close>

theorem search_failure_handed_on:
  assumes "kickoff env = kickoff_sequential answer"
    and "raw env = (\<lambda>out. Inr (output_raw out))"
    and "create_research_crew env query w = (Inr crew, w1)"
    and "fst (LinkUpSearchTool_run_try env query ''standard'' ''structured'' w1) =
           Inl (Exception m)"
  shows "\<exists>search_task analysis_task writing_task.
      tasks crew = [search_task, analysis_task, writing_task] \<and>
      fst (LinkUpSearchTool_run env query (Some ''standard'') (Some ''structured'') w1) =
        Inr (''Error during LinkUp search: '' @ m) \<and>
      fst (run_research env query w) =
        (case answer search_task [] (Some (''Error during LinkUp search: '' @ m)) of
               Inl x \<Rightarrow> except_Exception ''Error during crew execution: '' x
             | Inr o1 \<Rightarrow>
                 (case answer analysis_task [o1] None of
                    Inl x \<Rightarrow> except_Exception ''Error during crew execution: '' x
                  | Inr o2 \<Rightarrow>
                      (case answer writing_task [o2] None of
                         Inl x \<Rightarrow> except_Exception ''Error during crew execution: '' x
                       | Inr o3 \<Rightarrow> Inr o3)))"
proof -
  from assms(3) obtain t1 t2 t3 where
    t: "tasks crew = [t1, t2, t3]" "task_context t1 = None" "task_context t2 = Some [t1]"
      "task_context t3 = Some [t2]"
    and n: "task_ref t1 = next_ref w + 5" "task_ref t2 = next_ref w + 6"
      "task_ref t3 = next_ref w + 7"
    and c: "task_tool_choice t1 =
        Some \<lparr>choice_name = ''LinkUp Search'',
              arguments = [(''query'', query), (''depth'', ''standard''),
                           (''output_type'', ''structured'')]\<rparr>"
      "task_tool_choice t2 = None" "task_tool_choice t3 = None"
    by (rule built_tasks)
  have d: "task_ref t1 \<noteq> task_ref t2" using n by simp
  have r: "fst (LinkUpSearchTool_run env query (Some ''standard'') (Some ''structured'') w1) =
        Inr (''Error during LinkUp search: '' @ m)"
    using assms(4)
    by (cases "LinkUpSearchTool_run_try env query ''standard'' ''structured'' w1")
       (simp add: LinkUpSearchTool_run_def except_Exception_def)
  have k: "fst (kickoff env crew (LinkUpSearchTool_run env) w1) =
     (case answer t1 [] (Some (''Error during LinkUp search: '' @ m)) of
        Inl x \<Rightarrow> Inl x
      | Inr o1 \<Rightarrow>
          (case answer t2 [o1] None of
             Inl x \<Rightarrow> Inl x
           | Inr o2 \<Rightarrow>
               (case answer t3 [o2] None of
                  Inl x \<Rightarrow> Inl x
                | Inr o3 \<Rightarrow> Inr (CrewOutput o3))))"
    unfolding assms(1)
    by (rule pipeline_result [where run = "LinkUpSearchTool_run env", OF t(1,2,3,4) d c r])
  have "fst (run_research env query w) =
        (case answer t1 [] (Some (''Error during LinkUp search: '' @ m)) of
               Inl x \<Rightarrow> except_Exception ''Error during crew execution: '' x
             | Inr o1 \<Rightarrow>
                 (case answer t2 [o1] None of
                    Inl x \<Rightarrow> except_Exception ''Error during crew execution: '' x
                  | Inr o2 \<Rightarrow>
                      (case answer t3 [o2] None of
                         Inl x \<Rightarrow> except_Exception ''Error during crew execution: '' x
                       | Inr o3 \<Rightarrow> Inr o3)))"
    using k
    by (cases "kickoff env crew (LinkUpSearchTool_run env) w1")
       (simp add: run_research_def run_research_try_def then_E_def assms(2,3)
          split: sum.splits)
  with t(1) r show ?thesis by iprover
qed

theorem search_failure_handed_on_witness:
  "\<exists>crew w1 search_task analysis_task writing_task.
     create_research_crew refused_env ''q'' world0 = (Inr crew, w1) \<and>
     fst (LinkUpSearchTool_run_try refused_env ''q'' ''standard'' ''structured'' w1) =
       Inl (Exception ''401 Unauthorized'') \<and>
     tasks crew = [search_task, analysis_task, writing_task] \<and>
     fst (LinkUpSearchTool_run refused_env ''q'' (Some ''standard'') (Some ''structured'') w1) =
       Inr ''Error during LinkUp search: 401 Unauthorized'' \<and>
     fst (run_research refused_env ''q'' world0) =
       (case rewriting search_task []
                   (Some ''Error during LinkUp search: 401 Unauthorized'') of
               Inl x \<Rightarrow> except_Exception ''Error during crew execution: '' x
             | Inr o1 \<Rightarrow>
                 (case rewriting analysis_task [o1] None of
                    Inl x \<Rightarrow> except_Exception ''Error during crew execution: '' x
                  | Inr o2 \<Rightarrow>
                      (case rewriting writing_task [o2] None of
                         Inl x \<Rightarrow> except_Exception ''Error during crew execution: '' x
                       | Inr o3 \<Rightarrow> Inr o3)))"
proof -
  obtain crew w1 where c: "create_research_crew refused_env ''q'' world0 = (Inr crew, w1)"
    using refused_env_builds by blast
  have k: "kickoff refused_env = kickoff_sequential rewriting"
    by (simp add: refused_env_def)
  have o: "raw refused_env = (\<lambda>out. Inr (output_raw out))"
    by (simp add: refused_env_def working_env_def)
  note f = refused_env_raises [of "''q''" w1]
  from search_failure_handed_on [OF k o c f] obtain t1 t2 t3 where
    "tasks crew = [t1, t2, t3]"
    "fst (LinkUpSearchTool_run refused_env ''q'' (Some ''standard'') (Some ''structured'') w1) =
       Inr ''Error during LinkUp search: 401 Unauthorized''"
    "fst (run_research refused_env ''q'' world0) =
       (case rewriting t1 []
                   (Some ''Error during LinkUp search: 401 Unauthorized'') of
               Inl x \<Rightarrow> except_Exception ''Error during crew execution: '' x
             | Inr o1 \<Rightarrow>
                 (case rewriting t2 [o1] None of
                    Inl x \<Rightarrow> except_Exception ''Error during crew execution: '' x
                  | Inr o2 \<Rightarrow>
                      (case rewriting t3 [o2] None of
                         Inl x \<Rightarrow> except_Exception ''Error during crew execution: '' x
                       | Inr o3 \<Rightarrow> Inr o3)))"
    by (elim exE conjE) simp
  with c f show ?thesis by iprover
qed

text \<open>
  C3 as stated fails: with a provider that refuses every search, a search stage that
  hands on the adapter's error string, and analysis and writing stages that write texts
  of their own, the adapter is invoked, its search raises, and the runner's result is
  the writer's text, in which \<^verbatim>\<open>Error during\<close> does not occur.
\<close>

theorem search_failure_replaced_counterexample:
  "LinkupClient_search refused_env (getenv refused_env ''LINKUP_API_KEY'') ''q''
       ''standard'' ''structured'' = Inl (Exception ''401 Unauthorized'')
   \<and> fst (LinkUpSearchTool_run refused_env ''q'' (Some ''standard'') (Some ''structured'')
          world0) = Inr ''Error during LinkUp search: 401 Unauthorized''
   \<and> trace (snd (run_research refused_env ''q'' world0)) =
       [Printed (diagnostic_line ''q''), ClientConstructed (Some ''secret''),
        SearchCalled ''q'' ''standard'' ''structured'']
   \<and> fst (run_research refused_env ''q'' world0) =
       Inr ''No sources could be retrieved for this question.''
   \<and> \<not> sublist ''Error during'' ''No sources could be retrieved for this question.''"
  by code_simp

text \<open>
  C4. For every query, the crew that is built is configured for the sequential process,
  lists the search, analysis and writing tasks in this order, and gives the analysis
  task the search task as its only upstream task and the writing task the analysis task.
  Its execution is the search task with no context, then the analysis task with the
  search task's output as its only context, then the writing task with the analysis
  task's output as its only context; each task starts in the world its predecessor
  left, and an exception of a task ends the run before the next one starts.
\<close>

theorem tasks_run_in_order:
  assumes "create_research_crew env query w = (Inr crew, w1)"
  shows "process crew = sequential \<and>
    (\<exists>search_task analysis_task writing_task.
       tasks crew = [search_task, analysis_task, writing_task] \<and>
       map (role \<circ> agent) (tasks crew) =
         [''Web Searcher'', ''Research Analyst'', ''Technical Writer''] \<and>
       task_context search_task = None \<and>
       task_context analysis_task = Some [search_task] \<and>
       task_context writing_task = Some [analysis_task] \<and>
       (\<forall>answer run w'.
          kickoff_sequential answer crew run w' =
            then_E (execute_task answer run search_task []) (\<lambda>o1.
            then_E (execute_task answer run analysis_task [o1]) (\<lambda>o2.
            then_E (execute_task answer run writing_task [o2]) (\<lambda>o3.
            return_E (CrewOutput o3)))) w'))"
proof -
  from assms obtain t1 t2 t3 where
    t: "tasks crew = [t1, t2, t3]" "task_context t1 = None" "task_context t2 = Some [t1]"
      "task_context t3 = Some [t2]"
    and n: "task_ref t1 = next_ref w + 5" "task_ref t2 = next_ref w + 6"
    and r: "map (role \<circ> agent) [t1, t2, t3] =
         [''Web Searcher'', ''Research Analyst'', ''Technical Writer'']"
    by (rule built_tasks)
  have p: "process crew = sequential"
    using create_research_crew_Inr [OF assms] by (simp add: Let_def new_crew_def)
  have "task_ref t1 \<noteq> task_ref t2" using n by simp
  with t have k: "\<forall>answer run w'.
          kickoff_sequential answer crew run w' =
            then_E (execute_task answer run t1 []) (\<lambda>o1.
            then_E (execute_task answer run t2 [o1]) (\<lambda>o2.
            then_E (execute_task answer run t3 [o2]) (\<lambda>o3.
            return_E (CrewOutput o3)))) w'"
    by (simp add: kickoff_three)
  show ?thesis
    apply (rule conjI [OF p])
    apply (rule exI [of _ t1], rule exI [of _ t2], rule exI [of _ t3])
    using t r k apply simp
    done
qed

theorem tasks_run_in_order_witness:
  "\<exists>crew w1.
     create_research_crew working_env ''What is quantum entanglement?'' world0 = (Inr crew, w1) \<and>
     process crew = sequential \<and>
    (\<exists>search_task analysis_task writing_task.
       tasks crew = [search_task, analysis_task, writing_task] \<and>
       map (role \<circ> agent) (tasks crew) =
         [''Web Searcher'', ''Research Analyst'', ''Technical Writer''] \<and>
       task_context search_task = None \<and>
       task_context analysis_task = Some [search_task] \<and>
       task_context writing_task = Some [analysis_task] \<and>
       (\<forall>answer run w'.
          kickoff_sequential answer crew run w' =
            then_E (execute_task answer run search_task []) (\<lambda>o1.
            then_E (execute_task answer run analysis_task [o1]) (\<lambda>o2.
            then_E (execute_task answer run writing_task [o2]) (\<lambda>o3.
            return_E (CrewOutput o3)))) w'))"
proof -
  obtain crew w1 where
    c: "create_research_crew working_env ''What is quantum entanglement?'' world0 = (Inr crew, w1)"
    using working_env_builds by blast
  from tasks_run_in_order [OF c] c show ?thesis by iprover
qed

text \<open>
  C5. For every query, the search task is constructed with the pre-filled tool-invocation
  arguments \<^verbatim>\<open>query\<close> (the caller's query, verbatim), \<^verbatim>\<open>depth = "standard"\<close> and
  \<^verbatim>\<open>output_type = "structured"\<close>, and no other; executing it invokes the adapter with
  exactly these, the other two tasks invoke no tool, and in the whole run the adapter asks
  the provider at most once, with the query, \<^verbatim>\<open>standard\<close> and \<^verbatim>\<open>structured\<close> (not at
  all when its print or the construction of its client raises).
\<close>

theorem search_arguments_fixed:
  assumes "create_research_crew env query w = (Inr crew, w1)"
  shows "\<exists>search_task analysis_task writing_task.
      tasks crew = [search_task, analysis_task, writing_task] \<and>
      task_tool_choice search_task =
        Some \<lparr>choice_name = ''LinkUp Search'',
              arguments = [(''query'', query), (''depth'', ''standard''),
                           (''output_type'', ''structured'')]\<rparr> \<and>
      task_tool_choice analysis_task = None \<and>
      task_tool_choice writing_task = None \<and>
      (\<forall>answer run ctx w'.
         execute_task answer run search_task ctx w' =
           then_E (run query (Some ''standard'') (Some ''structured''))
             (\<lambda>observed w''. (answer search_task ctx (Some observed), w'')) w') \<and>
      (\<forall>answer w'.
         trace (snd (kickoff_sequential answer crew (LinkUpSearchTool_run env) w')) =
           trace w' @
           (case stdout_write env (diagnostic_line query) of
              Some e \<Rightarrow> []
            | None \<Rightarrow>
                Printed (diagnostic_line query)
                  # ClientConstructed (getenv env ''LINKUP_API_KEY'')
                  # (case LinkupClient_init env (getenv env ''LINKUP_API_KEY'') of
                       Some e \<Rightarrow> []
                     | None \<Rightarrow> [SearchCalled query ''standard'' ''structured''])))"
proof -
  from assms obtain t1 t2 t3 where
    t: "tasks crew = [t1, t2, t3]" "task_context t1 = None" "task_context t2 = Some [t1]"
      "task_context t3 = Some [t2]"
    and n: "task_ref t1 = next_ref w + 5" "task_ref t2 = next_ref w + 6"
      "task_ref t3 = next_ref w + 7"
    and c: "task_tool_choice t1 =
        Some \<lparr>choice_name = ''LinkUp Search'',
              arguments = [(''query'', query), (''depth'', ''standard''),
                           (''output_type'', ''structured'')]\<rparr>"
      "task_tool_choice t2 = None" "task_tool_choice t3 = None"
    by (rule built_tasks)
  have d: "task_ref t1 \<noteq> task_ref t2" using n by simp
  have e: "\<forall>answer run ctx w'.
         execute_task answer run t1 ctx w' =
           then_E (run query (Some ''standard'') (Some ''structured''))
             (\<lambda>observed w''. (answer t1 ctx (Some observed), w'')) w'"
    by (simp add: execute_search_task [OF c(1)])
  have k: "\<forall>answer w'.
         trace (snd (kickoff_sequential answer crew (LinkUpSearchTool_run env) w')) =
           trace w' @
           (case stdout_write env (diagnostic_line query) of
              Some e \<Rightarrow> []
            | None \<Rightarrow>
                Printed (diagnostic_line query)
                  # ClientConstructed (getenv env ''LINKUP_API_KEY'')
                  # (case LinkupClient_init env (getenv env ''LINKUP_API_KEY'') of
                       Some e \<Rightarrow> []
                     | None \<Rightarrow> [SearchCalled query ''standard'' ''structured'']))"
    by (simp add: pipeline_world [OF t(1,2,3,4) d c] run_trace split: option.splits)
  show ?thesis
    apply (rule exI [of _ t1], rule exI [of _ t2], rule exI [of _ t3])
    apply (intro conjI)
         apply (rule t(1))
        apply (rule c(1))
       apply (rule c(2))
      apply (rule c(3))
     apply (rule e)
    apply (rule k)
    done
qed

theorem search_arguments_fixed_witness:
  "\<exists>crew w1.
     create_research_crew working_env ''What is quantum entanglement?'' world0 = (Inr crew, w1) \<and>
     (\<forall>answer w'.
         trace (snd (kickoff_sequential answer crew (LinkUpSearchTool_run working_env) w')) =
           trace w' @
           [Printed (diagnostic_line ''What is quantum entanglement?''),
            ClientConstructed (Some ''secret''),
            SearchCalled ''What is quantum entanglement?'' ''standard'' ''structured''])"
proof -
  obtain crew w1 where
    c: "create_research_crew working_env ''What is quantum entanglement?'' world0 = (Inr crew, w1)"
    using working_env_builds by blast
  from search_arguments_fixed [OF c] have
    "\<forall>answer w'.
         trace (snd (kickoff_sequential answer crew (LinkUpSearchTool_run working_env) w')) =
           trace w' @
           [Printed (diagnostic_line ''What is quantum entanglement?''),
            ClientConstructed (Some ''secret''),
            SearchCalled ''What is quantum entanglement?'' ''standard'' ''structured'']"
    by (elim exE conjE) (simp add: working_env_def)
  with c show ?thesis by iprover
qed

text \<open>
  C6, as amended. Of the three constructed tasks, exactly the last two carry an explicit
  list of upstream tasks: the analysis task lists the search task, the writing task lists
  the analysis task, and the search task has none.
\<close>

theorem upstream_lists:
  assumes "create_research_crew env query w = (Inr crew, w1)"
  shows "\<exists>search_task analysis_task writing_task.
       tasks crew = [search_task, analysis_task, writing_task] \<and>
       task_context search_task = None \<and>
       task_context analysis_task = Some [search_task] \<and>
       task_context writing_task = Some [analysis_task]"
proof -
  from assms obtain t1 t2 t3 where
    "tasks crew = [t1, t2, t3]" "task_context t1 = None" "task_context t2 = Some [t1]"
      "task_context t3 = Some [t2]"
    by (rule built_tasks)
  then show ?thesis by simp
qed

theorem upstream_lists_witness:
  "\<exists>crew w1. create_research_crew working_env ''q'' world0 = (Inr crew, w1) \<and>
     (\<exists>search_task analysis_task writing_task.
       tasks crew = [search_task, analysis_task, writing_task] \<and>
       task_context search_task = None \<and>
       task_context analysis_task = Some [search_task] \<and>
       task_context writing_task = Some [analysis_task])"
proof -
  obtain crew w1 where c: "create_research_crew working_env ''q'' world0 = (Inr crew, w1)"
    using working_env_builds by blast
  from upstream_lists [OF c] c show ?thesis by iprover
qed

text \<open>
  C6 as stated fails: in the crew built for a query, the first task carries no list of
  upstream tasks while the second and the third do.
\<close>

theorem first_task_without_upstream_counterexample:
  "(case fst (create_research_crew working_env ''q'' world0) of
      Inl e \<Rightarrow> []
    | Inr crew \<Rightarrow> map (\<lambda>t. task_context t \<noteq> None) (tasks crew)) = [False, True, True]"
  by (simp add: create_research_crew_def get_llm_client_def then_E_def construct_def
      return_E_def Let_def working_env_def world0_def new_crew_def new_search_task_def
      new_analysis_task_def new_writing_task_def)

text \<open>
  C7, as amended. The source performs no validation of the query, not even a
  non-emptiness check: for every query, when no library constructor raises, the crew is
  built with the query verbatim in the search task's arguments and is handed to the
  framework, and the result of the tool-server operation is what the runner makes of the
  framework's result.
\<close>

theorem query_not_validated:
  assumes "BaseTool_init env = (\<lambda>x. None)" and "LLM_init env = (\<lambda>x. None)"
    and "Agent_init env = (\<lambda>x. None)" and "Task_init env = (\<lambda>x. None)"
    and "Crew_init env = (\<lambda>x. None)"
  shows "\<exists>crew w1 search_task analysis_task writing_task.
      create_research_crew env query w = (Inr crew, w1) \<and>
      tasks crew = [search_task, analysis_task, writing_task] \<and>
      task_tool_choice search_task =
        Some \<lparr>choice_name = ''LinkUp Search'',
              arguments = [(''query'', query), (''depth'', ''standard''),
                           (''output_type'', ''structured'')]\<rparr> \<and>
      crew_research env query w =
        (case kickoff env crew (LinkUpSearchTool_run env) w1 of
           (Inl e, w2) \<Rightarrow> (except_Exception ''Error during crew execution: '' e, w2)
         | (Inr result, w2) \<Rightarrow>
             (case raw env result of
                Inl e \<Rightarrow> (except_Exception ''Error during crew execution: '' e, w2)
              | Inr s \<Rightarrow> (Inr s, w2)))"
proof -
  obtain crew w1 where c: "create_research_crew env query w = (Inr crew, w1)"
    using accepting_builds [OF assms] by blast
  from c obtain t1 t2 t3 where
    t: "tasks crew = [t1, t2, t3]"
    and tc: "task_tool_choice t1 =
        Some \<lparr>choice_name = ''LinkUp Search'',
              arguments = [(''query'', query), (''depth'', ''standard''),
                           (''output_type'', ''structured'')]\<rparr>"
    by (rule built_tasks)
  have "crew_research env query w =
        (case kickoff env crew (LinkUpSearchTool_run env) w1 of
           (Inl e, w2) \<Rightarrow> (except_Exception ''Error during crew execution: '' e, w2)
         | (Inr result, w2) \<Rightarrow>
             (case raw env result of
                Inl e \<Rightarrow> (except_Exception ''Error during crew execution: '' e, w2)
              | Inr s \<Rightarrow> (Inr s, w2)))"
    by (simp add: crew_research_def run_research_def run_research_try_def then_E_def c
        split: prod.splits sum.splits)
  with c t tc show ?thesis by iprover
qed

theorem query_not_validated_witness:
  "\<exists>crew w1 search_task analysis_task writing_task.
      create_research_crew working_env [] world0 = (Inr crew, w1) \<and>
      tasks crew = [search_task, analysis_task, writing_task] \<and>
      task_tool_choice search_task =
        Some \<lparr>choice_name = ''LinkUp Search'',
              arguments = [(''query'', []), (''depth'', ''standard''),
                           (''output_type'', ''structured'')]\<rparr> \<and>
      crew_research working_env [] world0 =
        (case kickoff working_env crew (LinkUpSearchTool_run working_env) w1 of
           (Inl e, w2) \<Rightarrow> (except_Exception ''Error during crew execution: '' e, w2)
         | (Inr result, w2) \<Rightarrow>
             (case raw working_env result of
                Inl e \<Rightarrow> (except_Exception ''Error during crew execution: '' e, w2)
              | Inr s \<Rightarrow> (Inr s, w2)))"
  by (rule query_not_validated) (simp_all add: working_env_def)

text \<open>
  C7 as stated fails: there is no non-emptiness check. The empty query is not turned
  away; the crew is built for it, the provider is searched for the empty string and the
  answer is returned.
\<close>

theorem empty_query_searched_counterexample:
  "crew_research working_env [] world0 =
     (Inr ''sources for '',
      \<lparr>next_ref = 9,
       trace = [Printed (diagnostic_line []), ClientConstructed (Some ''secret''),
                SearchCalled [] ''standard'' ''structured'']\<rparr>)"
  by code_simp

text \<open>
  C8. The tool server that runs registers exactly one operation, \<^verbatim>\<open>crew_research\<close>, with
  one required parameter \<^verbatim>\<open>query\<close> annotated as a string and a string as its return
  annotation; the operation is the pipeline runner applied to the query, with nothing
  before or after it, and like the runner it returns a string unless something that is
  not an \<^verbatim>\<open>Exception\<close> was raised.
\<close>

theorem one_operation:
  "registered (served main) =
     [\<lparr>op_name = ''crew_research'', op_params = [(''query'', ''str'', True)],
       op_returns = ''str''\<rparr>]
   \<and> crew_research env query w = run_research env query w
   \<and> (\<forall>m. fst (crew_research env query w) \<noteq> Inl (Exception m))"
  by (simp add: main_def FastMCP_run_def mcp_def tool_def FastMCP_new_def crew_research_def
      run_research_not_Exception)

text \<open>
  C9. Two calls build their crews from objects of their own: whatever the queries and
  the libraries, the objects reachable from the crew of a call (the crew, its three
  tasks, its three agents, the client and the search tool) are the nine objects
  constructed by that call, and no object reachable from the crew of an earlier call is
  reachable from the crew of a later one.
\<close>

theorem fresh_objects_per_call:
  assumes "create_research_crew env query w = (Inr crew, w1)"
    and "next_ref w1 \<le> next_ref w'"
    and "create_research_crew env' query' w' = (Inr crew', w1')"
  shows "set (crew_refs crew) \<inter> set (crew_refs crew') = {} \<and>
         set (crew_refs crew) = {next_ref w ..< next_ref w + 9} \<and>
         set (crew_refs crew') = {next_ref w' ..< next_ref w' + 9}"
  using built_refs [OF assms(1)] built_refs [OF assms(3)] assms(2) by auto

theorem fresh_objects_per_call_witness:
  "\<exists>crew w1 crew' w1'.
     create_research_crew working_env ''first question'' world0 = (Inr crew, w1) \<and>
     next_ref w1 \<le> next_ref (snd (crew_research working_env ''first question'' world0)) \<and>
     create_research_crew working_env ''second question''
       (snd (crew_research working_env ''first question'' world0)) = (Inr crew', w1') \<and>
     set (crew_refs crew) \<inter> set (crew_refs crew') = {}"
proof -
  let ?w' = "snd (crew_research working_env ''first question'' world0)"
  obtain crew w1 where
    c: "create_research_crew working_env ''first question'' world0 = (Inr crew, w1)"
    using working_env_builds by blast
  obtain crew' w1' where
    c': "create_research_crew working_env ''second question'' ?w' = (Inr crew', w1')"
    using working_env_builds by blast
  have "next_ref w1 = 9" using built_refs(2) [OF c] by (simp add: world0_def)
  moreover have "next_ref ?w' = 9" by code_simp
  ultimately have n: "next_ref w1 \<le> next_ref ?w'" by simp
  from fresh_objects_per_call [OF c n c'] c n c' show ?thesis by iprover
qed



end
